theory Spec2Isabelle
  imports Main "HOL-Library.AList"
begin

section \<open>JavaScript values\<close>

text \<open>
  The values that flow through the redirect engine and the wrapper: configuration
  objects, redirect rules, the parsed cookie and the result of the page's own
  \<open>getServerSideProps\<close>. An object is an association list in insertion order; an
  array is an object whose keys are its indices.
\<close>

datatype jsval =
    JUndefined
  | JNull
  | JBool bool
  | JNum int
  | JStr string
  | JObj "(string \<times> jsval) list"

text \<open>What \<open>if (v)\<close>, \<open>!v\<close>, \<open>v || w\<close> and \<open>v ? a : b\<close> test.\<close>

fun truthy :: "jsval \<Rightarrow> bool" where
  "truthy JUndefined = False"
| "truthy JNull = False"
| "truthy (JBool b) = b"
| "truthy (JNum n) = (n \<noteq> 0)"
| "truthy (JStr s) = (s \<noteq> [])"
| "truthy (JObj kvs) = True"

text \<open>
  What the source throws: \<open>new Error(message)\<close>, the \<open>TypeError\<close> of a property
  access on \<open>null\<close> or \<open>undefined\<close> (and, in a module, of a property assignment to a
  primitive), and the \<open>SyntaxError\<close> of \<open>JSON.parse\<close>.
\<close>

datatype error = Error string | TypeError | SyntaxError

text \<open>
  \<open>v.k\<close> for the keys this program reads (\<open>props\<close>, \<open>notFound\<close>, \<open>redirect\<close>,
  \<open>idToken\<close>, \<open>refreshToken\<close>, \<open>authenticatedUser\<close>, \<open>unauthenticatedUser\<close>): a
  missing key of an object and any of these keys of a primitive read as \<open>undefined\<close>;
  reading from \<open>null\<close> or \<open>undefined\<close> throws.
\<close>

definition propOf :: "(string \<times> jsval) list \<Rightarrow> string \<Rightarrow> jsval" where
  "propOf kvs k = (case map_of kvs k of None \<Rightarrow> JUndefined | Some v \<Rightarrow> v)"

fun getProp :: "jsval \<Rightarrow> string \<Rightarrow> error + jsval" where
  "getProp JUndefined k = Inl TypeError"
| "getProp JNull k = Inl TypeError"
| "getProp (JObj kvs) k = Inr (propOf kvs k)"
| "getProp v k = Inr JUndefined"

text \<open>\<open>o.k = v\<close> on an object: an existing key keeps its place, a new key goes last.\<close>

definition setProp :: "(string \<times> jsval) list \<Rightarrow> string \<Rightarrow> jsval \<Rightarrow> (string \<times> jsval) list" where
  "setProp kvs k v = AList.update k v kvs"

section \<open>Sessions, contexts and configuration\<close>

text \<open>
  The \<open>AuthUser\<close> object as far as this module reads it: its \<open>id\<close> (a string or
  \<open>null\<close>) and the string its \<open>serialize()\<close> method returns.
\<close>

record AuthUser =
  id' :: "string option"
  serialize :: string

definition hasId :: "AuthUser \<Rightarrow> bool" where
  "hasId u = (case id' u of None \<Rightarrow> False | Some s \<Rightarrow> s \<noteq> [])"

text \<open>The Next.js context: \<open>req\<close>, \<open>res\<close>, and the \<open>AuthUser\<close> the wrapper attaches.\<close>

record nextCtx =
  req :: jsval
  res :: jsval
  ctx_AuthUser :: "AuthUser option"

text \<open>
  Modelled from the spec: \<open>src/AuthAction\<close> is not among the sources; the three
  actions this module compares against are \<open>render\<close>, \<open>redirect-to-login\<close> and
  \<open>redirect-to-app\<close>.
\<close>

datatype AuthAction = RENDER | REDIRECT_TO_LOGIN | REDIRECT_TO_APP

text \<open>
  \<open>appPageURL\<close> and \<open>authPageURL\<close>, as the module documents them: a string, or a
  function that accepts \<open>{ ctx, AuthUser }\<close> and returns a string; \<open>None\<close> is
  \<open>null\<close> or \<open>undefined\<close>.
\<close>

datatype url = UrlString string | UrlFunction "nextCtx \<Rightarrow> AuthUser \<Rightarrow> string"

fun truthyURL :: "url option \<Rightarrow> bool" where
  "truthyURL None = False"
| "truthyURL (Some (UrlString s)) = (s \<noteq> [])"
| "truthyURL (Some (UrlFunction f)) = True"

text \<open>\<open>a || b\<close> on URLs and on values.\<close>

definition orURL :: "url option \<Rightarrow> url option \<Rightarrow> url option" where
  "orURL a b = (if truthyURL a then a else b)"

definition orVal :: "jsval \<Rightarrow> jsval \<Rightarrow> jsval" where
  "orVal a b = (if truthy a then a else b)"

record cookie_options =
  keys :: "string list"
  secure :: bool
  signed :: bool

text \<open>The object \<open>getConfig()\<close> returns, as far as this module reads it.\<close>

record config =
  config_authPageURL :: "url option"
  config_appPageURL :: "url option"
  config_redirectConfig :: jsval
  config_cookies :: cookie_options

text \<open>The first argument of \<open>withAuthUserTokenSSR\<close>, and its defaults.\<close>

record options =
  redirectConfig :: jsval
  whenAuthed :: AuthAction
  whenUnauthed :: AuthAction
  appPageURL :: "url option"
  authPageURL :: "url option"

definition defaultOptions :: options where
  "defaultOptions = \<lparr> redirectConfig = JNull, whenAuthed = RENDER, whenUnauthed = RENDER,
     appPageURL = None, authPageURL = None \<rparr>"

text \<open>The \<open>redirectSettings\<close> object handed to \<open>processRedirect\<close>.\<close>

record redirectSettings = options +
  ctx :: nextCtx
  AuthUser :: AuthUser

section \<open>The redirect engine of \<open>withAuthUserTokenSSR.js\<close>\<close>

text \<open>The object literal both redirect functions return.\<close>

definition directive :: "string \<Rightarrow> jsval" where
  "directive destination =
     JObj [(''redirect'', JObj [(''destination'', JStr destination), (''permanent'', JBool False)])]"

definition redirectUnauthenticatedUser :: "url option \<Rightarrow> nextCtx \<Rightarrow> AuthUser \<Rightarrow> error + jsval" where
  \<open>redirectUnauthenticatedUser unauthenticatedRedirectURL c u =
     (if \<not> truthyURL unauthenticatedRedirectURL then
        Inl (Error ''When "whenUnauthed" is set to AuthAction.REDIRECT_TO_LOGIN, "authPageURL" must be set.'')
      else
        let destination =
          (case unauthenticatedRedirectURL of
             Some (UrlString s) \<Rightarrow> s
           | Some (UrlFunction f) \<Rightarrow> f c u
           | None \<Rightarrow> [])
        in if destination = [] then
             Inl (Error ''The "authPageURL" must be set to a non-empty string or resolve to a non-empty string'')
           else Inr (directive destination))\<close>

definition redirectAuthenticatedUser :: "url option \<Rightarrow> nextCtx \<Rightarrow> AuthUser \<Rightarrow> error + jsval" where
  \<open>redirectAuthenticatedUser authenticatedRedirectURL c u =
     (if \<not> truthyURL authenticatedRedirectURL then
        Inl (Error ''When "whenAuthed" is set to AuthAction.REDIRECT_TO_APP, "appPageURL" must be set.'')
      else
        let destination =
          (case authenticatedRedirectURL of
             Some (UrlString s) \<Rightarrow> s
           | Some (UrlFunction f) \<Rightarrow> f c u
           | None \<Rightarrow> [])
        in if destination = [] then
             Inl (Error ''The "appPageURL" must be set to a non-empty string or resolve to a non-empty string'')
           else Inr (directive destination))\<close>

definition findLegacyRedirect :: "config \<Rightarrow> redirectSettings \<Rightarrow> error + jsval" where
  "findLegacyRedirect getConfig s =
     (let unauthenticatedRedirectURL = orURL (authPageURL s) (config_authPageURL getConfig);
          shouldRedirectUnauthedUser = (\<not> hasId (AuthUser s) \<and> whenUnauthed s = REDIRECT_TO_LOGIN);
          authenticatedRedirectURL = orURL (appPageURL s) (config_appPageURL getConfig);
          shouldRedirectAuthedUser = (hasId (AuthUser s) \<and> whenAuthed s = REDIRECT_TO_APP)
      in if shouldRedirectUnauthedUser then
           redirectUnauthenticatedUser unauthenticatedRedirectURL (ctx s) (AuthUser s)
         else if shouldRedirectAuthedUser then
           redirectAuthenticatedUser authenticatedRedirectURL (ctx s) (AuthUser s)
         else Inr JNull)"

text \<open>
  \<open>findRedirectRule\<close> of \<open>withAuthUserTokenSSR.js\<close>: the test is on \<open>config\<close>, the
  rule is read from the call-site \<open>redirectConfig\<close>.
\<close>

definition findRedirectRule :: "config \<Rightarrow> redirectSettings \<Rightarrow> error + jsval" where
  "findRedirectRule getConfig s =
     (let cfg = orVal (redirectConfig s) (config_redirectConfig getConfig)
      in if \<not> truthy cfg then Inr JNull
         else
           (case (if hasId (AuthUser s)
                  then getProp (redirectConfig s) ''authenticatedUser''
                  else getProp (redirectConfig s) ''unauthenticatedUser'') of
              Inl e \<Rightarrow> Inl e
            | Inr redirect \<Rightarrow> Inr (JObj [(''redirect'', redirect)])))"

definition processRedirect :: "config \<Rightarrow> redirectSettings \<Rightarrow> error + jsval" where
  "processRedirect getConfig s =
     (case findRedirectRule getConfig s of
        Inl e \<Rightarrow> Inl e
      | Inr redirectRule \<Rightarrow>
          if truthy redirectRule then Inr redirectRule
          else findLegacyRedirect getConfig s)"

section \<open>The generator-based redirect engine\<close>

text \<open>
  The other source file holds the engine with \<open>findLegacyRedirect\<close> written as a
  generator (\<open>function*\<close>), twice, the two copies differing in declaration style only.
  A generator that yields once and then returns is a pair: the yielded value, computed
  by the first \<open>next()\<close>, and the suspended rest, which runs only if \<open>next()\<close> is
  called again. The two redirect functions of that file are those of
  \<open>withAuthUserTokenSSR.js\<close>, word for word.
\<close>

definition findLegacyRedirect_gen ::
    "config \<Rightarrow> redirectSettings \<Rightarrow> url option \<times> (unit \<Rightarrow> error + jsval)" where
  "findLegacyRedirect_gen getConfig s =
     (let unauthenticatedRedirectURL = orURL (authPageURL s) (config_authPageURL getConfig);
          shouldRedirectUnauthedUser = (\<not> hasId (AuthUser s) \<and> whenUnauthed s = REDIRECT_TO_LOGIN);
          authenticatedRedirectURL = orURL (appPageURL s) (config_appPageURL getConfig);
          shouldRedirectAuthedUser = (hasId (AuthUser s) \<and> whenAuthed s = REDIRECT_TO_APP)
      in (orURL unauthenticatedRedirectURL authenticatedRedirectURL,
          \<lambda>_. if shouldRedirectUnauthedUser then
                 redirectUnauthenticatedUser unauthenticatedRedirectURL (ctx s) (AuthUser s)
               else if shouldRedirectAuthedUser then
                 redirectAuthenticatedUser authenticatedRedirectURL (ctx s) (AuthUser s)
               else Inr JNull))"

text \<open>Here the rule is read from \<open>config\<close>, the object that was tested.\<close>

definition findRedirectRule_gen :: "config \<Rightarrow> redirectSettings \<Rightarrow> error + jsval" where
  "findRedirectRule_gen getConfig s =
     (let cfg = orVal (redirectConfig s) (config_redirectConfig getConfig)
      in if \<not> truthy cfg then Inr JNull
         else
           (case (if hasId (AuthUser s)
                  then getProp cfg ''authenticatedUser''
                  else getProp cfg ''unauthenticatedUser'') of
              Inl e \<Rightarrow> Inl e
            | Inr redirect \<Rightarrow> Inr (JObj [(''redirect'', redirect)])))"

definition processRedirect_gen :: "config \<Rightarrow> redirectSettings \<Rightarrow> error + jsval" where
  "processRedirect_gen getConfig s =
     (let legacyRedirect = findLegacyRedirect_gen getConfig s;
          useLegacyRedirect = fst legacyRedirect
      in if \<not> truthyURL useLegacyRedirect then findRedirectRule_gen getConfig s
         else snd legacyRedirect ())"

section \<open>Resolving the session\<close>

text \<open>
  \<open>createAuthUser()\<close> and \<open>createAuthUser({ serializedAuthUser })\<close>, the latter with
  the cookie's value or \<open>undefined\<close>.
\<close>

datatype createAuthUser_args = NoArgs | SerializedAuthUser "string option"

text \<open>
  What the module imports and calls: the configuration, the cookie reader and the two
  cookie names, the token verifier, the \<open>AuthUser\<close> constructor, and \<open>JSON.parse\<close>.
  The verifier, the constructor and the parser may throw.
\<close>

record deps =
  getConfig :: config
  getCookie :: "string \<Rightarrow> jsval \<times> jsval \<Rightarrow> cookie_options \<Rightarrow> string option"
  getAuthUserTokensCookieName :: string
  getAuthUserCookieName :: string
  verifyIdToken :: "jsval \<Rightarrow> jsval \<Rightarrow> error + AuthUser"
  createAuthUser :: "createAuthUser_args \<Rightarrow> error + AuthUser"
  JSON_parse :: "string \<Rightarrow> error + jsval"

definition determineAuthUser ::
    "deps \<Rightarrow> bool \<Rightarrow> jsval \<Rightarrow> jsval \<Rightarrow> cookie_options \<Rightarrow> error + AuthUser" where
  "determineAuthUser d useToken rq rs copts =
     (if useToken then
        (let cookieValStr = getCookie d (getAuthUserTokensCookieName d) (rq, rs) copts
         in case (case cookieValStr of
                    None \<Rightarrow> Inr (JObj [])
                  | Some str \<Rightarrow> if str \<noteq> [] then JSON_parse d str else Inr (JObj [])) of
              Inl e \<Rightarrow> Inl e
            | Inr parsed \<Rightarrow>
                (case getProp parsed ''idToken'' of
                   Inl e \<Rightarrow> Inl e
                 | Inr idToken \<Rightarrow>
                     (case getProp parsed ''refreshToken'' of
                        Inl e \<Rightarrow> Inl e
                      | Inr refreshToken \<Rightarrow>
                          if truthy idToken then verifyIdToken d idToken refreshToken
                          else createAuthUser d NoArgs)))
      else
        (let cookieValStr = getCookie d (getAuthUserCookieName d) (rq, rs) copts
         in createAuthUser d (SerializedAuthUser cookieValStr)))"

section \<open>The wrapper\<close>

text \<open>
  The page's own \<open>getServerSideProps\<close> is the one call whose effects the wrapper
  does not own: it takes the context and the state of the world and returns its result,
  or what it threw, with the state it left. \<open>None\<close> is a wrapper applied to no function.
\<close>

type_synonym 'w getServerSideProps = "nextCtx \<Rightarrow> 'w \<Rightarrow> (error + jsval) \<times> 'w"

text \<open>
  The object literal the wrapper passes to \<open>processRedirect\<close>: its own options, the
  context and the resolved \<open>AuthUser\<close>.
\<close>

abbreviation settingsOf :: "options \<Rightarrow> nextCtx \<Rightarrow> AuthUser \<Rightarrow> redirectSettings" where
  "settingsOf opts c u \<equiv>
     \<lparr> redirectConfig = redirectConfig opts, whenAuthed = whenAuthed opts,
       whenUnauthed = whenUnauthed opts, appPageURL = appPageURL opts,
       authPageURL = authPageURL opts, ctx = c, AuthUser = u \<rparr>"

text \<open>
  \<open>{ ...v }\<close>: the own properties of an object; a primitive without indexed
  properties has none. The wrapper spreads only values that have a truthy \<open>props\<close>,
  \<open>notFound\<close> or \<open>redirect\<close>, which are objects.
\<close>

fun spread :: "jsval \<Rightarrow> (string \<times> jsval) list" where
  "spread (JObj kvs) = kvs"
| "spread v = []"

definition sessionProps :: "string \<Rightarrow> jsval" where
  "sessionProps AuthUserSerialized =
     JObj [(''props'', JObj [(''AuthUserSerialized'', JStr AuthUserSerialized)])]"

text \<open>
  The file is an ECMAScript module, hence strict code: the assignment
  \<open>returnData.props.AuthUserSerialized = ...\<close> on a \<open>props\<close> that is a truthy
  primitive throws a \<open>TypeError\<close>. \<open>returnData.props\<close> is the very object the
  function returned under \<open>props\<close>, so the assignment shows in the spread copy.
\<close>

definition withAuthUserTokenSSR ::
    "deps \<Rightarrow> options \<Rightarrow> bool \<Rightarrow> 'w getServerSideProps option \<Rightarrow> nextCtx \<Rightarrow> 'w
      \<Rightarrow> (error + jsval) \<times> 'w" where
  "withAuthUserTokenSSR d opts useToken getServerSidePropsFunc c w =
     (case determineAuthUser d useToken (req c) (res c) (config_cookies (getConfig d)) of
        Inl e \<Rightarrow> (Inl e, w)
      | Inr u \<Rightarrow>
          (let AuthUserSerialized = serialize u
           in case processRedirect (getConfig d) (settingsOf opts c u) of
                Inl e \<Rightarrow> (Inl e, w)
              | Inr redirect \<Rightarrow>
                  if truthy redirect then (Inr redirect, w)
                  else
                    (let returnData = sessionProps AuthUserSerialized
                     in case getServerSidePropsFunc of
                          None \<Rightarrow> (Inr returnData, w)
                        | Some f \<Rightarrow>
                            (case f (c\<lparr>ctx_AuthUser := Some u\<rparr>) w of
                               (Inl e, w') \<Rightarrow> (Inl e, w')
                             | (Inr r, w') \<Rightarrow>
                                 (let composedProps = orVal r (JObj [])
                                  in if truthy composedProps then
                                       (case getProp composedProps ''props'' of
                                          Inl e \<Rightarrow> (Inl e, w')
                                        | Inr props \<Rightarrow>
                                            if truthy props then
                                              (case props of
                                                 JObj ps \<Rightarrow>
                                                   (Inr (JObj (setProp (spread composedProps) ''props''
                                                      (JObj (setProp ps ''AuthUserSerialized''
                                                               (JStr AuthUserSerialized))))), w')
                                               | _ \<Rightarrow> (Inl TypeError, w'))
                                            else
                                              (case getProp composedProps ''notFound'' of
                                                 Inl e \<Rightarrow> (Inl e, w')
                                               | Inr notFound \<Rightarrow>
                                                   (case getProp composedProps ''redirect'' of
                                                      Inl e \<Rightarrow> (Inl e, w')
                                                    | Inr redirect' \<Rightarrow>
                                                        if truthy notFound \<or> truthy redirect'
                                                        then (Inr (JObj (spread composedProps)), w')
                                                        else (Inr returnData, w'))))
                                     else (Inr returnData, w'))))))"

section \<open>Notions the properties are stated with\<close>

text \<open>
  The declarative rule for a session: the \<open>authenticatedUser\<close> entry of the mapping
  for a session with a non-empty id, the \<open>unauthenticatedUser\<close> entry otherwise, and
  \<open>undefined\<close> where the mapping has no such entry.
\<close>

definition ruleFor :: "(string \<times> jsval) list \<Rightarrow> AuthUser \<Rightarrow> jsval" where
  "ruleFor kvs u = propOf kvs (if hasId u then ''authenticatedUser'' else ''unauthenticatedUser'')"

text \<open>Neither the call site nor the global configuration gives a usable legacy URL.\<close>

definition noLegacyURL :: "config \<Rightarrow> redirectSettings \<Rightarrow> bool" where
  "noLegacyURL cfg s \<longleftrightarrow>
     \<not> truthyURL (authPageURL s) \<and> \<not> truthyURL (config_authPageURL cfg)
     \<and> \<not> truthyURL (appPageURL s) \<and> \<not> truthyURL (config_appPageURL cfg)"

text \<open>Neither the call site nor the global configuration gives a declarative mapping.\<close>

definition noDeclarativeConfig :: "config \<Rightarrow> redirectSettings \<Rightarrow> bool" where
  "noDeclarativeConfig cfg s \<longleftrightarrow>
     \<not> truthy (redirectConfig s) \<and> \<not> truthy (config_redirectConfig cfg)"

text \<open>The four messages of the configuration errors.\<close>

definition authPageURLMissing :: error where
  \<open>authPageURLMissing =
     Error ''When "whenUnauthed" is set to AuthAction.REDIRECT_TO_LOGIN, "authPageURL" must be set.''\<close>

definition authPageURLEmpty :: error where
  \<open>authPageURLEmpty =
     Error ''The "authPageURL" must be set to a non-empty string or resolve to a non-empty string''\<close>

definition appPageURLMissing :: error where
  \<open>appPageURLMissing =
     Error ''When "whenAuthed" is set to AuthAction.REDIRECT_TO_APP, "appPageURL" must be set.''\<close>

definition appPageURLEmpty :: error where
  \<open>appPageURLEmpty =
     Error ''The "appPageURL" must be set to a non-empty string or resolve to a non-empty string''\<close>

section \<open>Concrete inputs\<close>

definition noConfig :: config where
  "noConfig = \<lparr> config_authPageURL = None, config_appPageURL = None,
     config_redirectConfig = JUndefined,
     config_cookies = \<lparr> keys = [], secure = False, signed = False \<rparr> \<rparr>"

definition anonymousUser :: AuthUser where
  "anonymousUser = \<lparr> id' = None, serialize = ''SESSVAL'' \<rparr>"

definition identifiedUser :: AuthUser where
  "identifiedUser = \<lparr> id' = Some ''abc'', serialize = ''SESSVAL'' \<rparr>"

definition someCtx :: nextCtx where
  "someCtx = \<lparr> req = JObj [], res = JObj [], ctx_AuthUser = None \<rparr>"

definition loginRule :: jsval where
  "loginRule = JObj [(''destination'', JStr ''/login''), (''permanent'', JBool False)]"

definition appRule :: jsval where
  "appRule = JObj [(''destination'', JStr ''/app''), (''permanent'', JBool False)]"

definition declarativeConfig :: "(string \<times> jsval) list" where
  "declarativeConfig = [(''authenticatedUser'', appRule), (''unauthenticatedUser'', loginRule)]"

text \<open>Options with a declarative mapping only.\<close>

definition declarativeOptions :: options where
  "declarativeOptions = defaultOptions\<lparr> redirectConfig := JObj declarativeConfig \<rparr>"

text \<open>Options with a declarative mapping and a legacy redirect to \<open>/signin\<close> as well.\<close>

definition mixedOptions :: options where
  "mixedOptions = defaultOptions\<lparr> redirectConfig := JObj declarativeConfig,
     whenUnauthed := REDIRECT_TO_LOGIN, authPageURL := Some (UrlString ''/signin'') \<rparr>"

text \<open>Legacy options only: anonymous sessions go to \<open>/signin\<close>.\<close>

definition legacyOptions :: options where
  "legacyOptions = defaultOptions\<lparr> whenUnauthed := REDIRECT_TO_LOGIN,
     authPageURL := Some (UrlString ''/signin'') \<rparr>"

text \<open>The login action selected, and no URL anywhere.\<close>

definition loginWithoutURL :: options where
  "loginWithoutURL = defaultOptions\<lparr> whenUnauthed := REDIRECT_TO_LOGIN \<rparr>"

text \<open>The login action selected, with a URL function that returns the empty string.\<close>

definition emptyLoginURL :: options where
  "emptyLoginURL = defaultOptions\<lparr> whenUnauthed := REDIRECT_TO_LOGIN,
     authPageURL := Some (UrlFunction (\<lambda>c u. [])) \<rparr>"

text \<open>A declarative mapping whose rule for anonymous sessions is a permanent redirect.\<close>

definition permanentOptions :: options where
  "permanentOptions = defaultOptions\<lparr> redirectConfig :=
     JObj [(''unauthenticatedUser'',
            JObj [(''destination'', JStr ''/moved''), (''permanent'', JBool True)])] \<rparr>"

text \<open>A global configuration whose only content is the declarative mapping.\<close>

definition globalDeclarative :: config where
  "globalDeclarative = noConfig\<lparr> config_redirectConfig := JObj declarativeConfig \<rparr>"

text \<open>
  \<open>JSON.parse\<close> on the two cookie values used below; every other text is left
  unparsed here.
\<close>

definition parseTokens :: "string \<Rightarrow> error + jsval" where
  \<open>parseTokens str =
     (if str = ''{}'' then Inr (JObj [])
      else if str = ''{"idToken":"tok","refreshToken":"ref"}''
        then Inr (JObj [(''idToken'', JStr ''tok''), (''refreshToken'', JStr ''ref'')])
      else Inl SyntaxError)\<close>

text \<open>
  Collaborators for a request whose token cookie has the given value: the verifier
  accepts every token as \<open>identifiedUser\<close>, the constructor returns \<open>anonymousUser\<close>.
\<close>

definition exampleDeps :: "string option \<Rightarrow> deps" where
  "exampleDeps tokensCookie =
     \<lparr> getConfig = noConfig,
       getCookie = (\<lambda>name rr copts. if name = ''App.AuthUserTokens'' then tokensCookie else None),
       getAuthUserTokensCookieName = ''App.AuthUserTokens'',
       getAuthUserCookieName = ''App.AuthUser'',
       verifyIdToken = (\<lambda>idToken refreshToken. Inr identifiedUser),
       createAuthUser = (\<lambda>args. Inr anonymousUser),
       JSON_parse = parseTokens \<rparr>"

text \<open>A page function that returns a fixed value and counts its calls in the state.\<close>

definition returning :: "jsval \<Rightarrow> nat getServerSideProps" where
  "returning v = (\<lambda>c n. (Inr v, Suc n))"

section \<open>Shapes of the results\<close>

lemmas engine_defs = processRedirect_def processRedirect_gen_def findRedirectRule_def
  findRedirectRule_gen_def findLegacyRedirect_gen_def findLegacyRedirect_def
  redirectUnauthenticatedUser_def redirectAuthenticatedUser_def directive_def
  orVal_def orURL_def ruleFor_def propOf_def hasId_def noLegacyURL_def noDeclarativeConfig_def Let_def

lemmas error_defs = authPageURLMissing_def authPageURLEmpty_def appPageURLMissing_def
  appPageURLEmpty_def

lemmas example_defs = noConfig_def anonymousUser_def identifiedUser_def someCtx_def
  loginRule_def appRule_def declarativeConfig_def defaultOptions_def declarativeOptions_def
  mixedOptions_def legacyOptions_def loginWithoutURL_def globalDeclarative_def

lemma findRedirectRule_result:
  "findRedirectRule cfg s = Inr v \<Longrightarrow> v = JNull \<or> (\<exists>r. v = JObj [(''redirect'', r)])"
  by (auto simp: findRedirectRule_def Let_def split: if_splits sum.splits)

lemma redirectUnauthenticatedUser_result:
  "redirectUnauthenticatedUser x c u = Inr v \<Longrightarrow> \<exists>d. d \<noteq> [] \<and> v = directive d"
  by (auto simp: redirectUnauthenticatedUser_def Let_def split: if_splits)

lemma redirectAuthenticatedUser_result:
  "redirectAuthenticatedUser x c u = Inr v \<Longrightarrow> \<exists>d. d \<noteq> [] \<and> v = directive d"
  by (auto simp: redirectAuthenticatedUser_def Let_def split: if_splits)

lemma findLegacyRedirect_result:
  "findLegacyRedirect cfg s = Inr v \<Longrightarrow> v = JNull \<or> (\<exists>d. d \<noteq> [] \<and> v = directive d)"
  by (auto simp: findLegacyRedirect_def Let_def split: if_splits
           dest: redirectUnauthenticatedUser_result redirectAuthenticatedUser_result)

lemma findLegacyRedirect_gen_resume:
  "snd (findLegacyRedirect_gen cfg s) () = findLegacyRedirect cfg s"
  by (simp add: findLegacyRedirect_gen_def findLegacyRedirect_def Let_def)

lemma findLegacyRedirect_gen_yield:
  "truthyURL (fst (findLegacyRedirect_gen cfg s)) \<longleftrightarrow> \<not> noLegacyURL cfg s"
  by (auto simp: findLegacyRedirect_gen_def orURL_def noLegacyURL_def Let_def)

lemma processRedirect_truthy:
  "processRedirect cfg s = Inr v \<Longrightarrow> v \<noteq> JNull \<Longrightarrow> truthy v"
  by (auto simp: processRedirect_def directive_def split: sum.splits if_splits
           dest!: findLegacyRedirect_result findRedirectRule_result)

section \<open>Properties of the redirect engines\<close>

text \<open>
  C1, as amended. With a call-site \<open>redirectConfig\<close> object, the engine of
  \<open>withAuthUserTokenSSR.js\<close> returns \<open>{ redirect: r }\<close>, \<open>r\<close> the declarative rule
  for the session (\<open>undefined\<close> when the mapping has none), whatever the legacy URLs,
  the action flags and the global configuration are. The generator-based engine
  returns that object, from the call-site mapping or else the global one, only when no
  legacy URL is usable; when one is, it returns what the legacy strategy returns and
  the declarative mapping is not read.
\<close>

theorem C1_declarative_rule:
  "(redirectConfig s = JObj kvs \<longrightarrow>
      processRedirect cfg s = Inr (JObj [(''redirect'', ruleFor kvs (AuthUser s))]))
   \<and> (orVal (redirectConfig s) (config_redirectConfig cfg) = JObj kvs \<and> noLegacyURL cfg s \<longrightarrow>
      processRedirect_gen cfg s = Inr (JObj [(''redirect'', ruleFor kvs (AuthUser s))]))
   \<and> (\<not> noLegacyURL cfg s \<longrightarrow> processRedirect_gen cfg s = findLegacyRedirect cfg s)"
  by (auto simp: processRedirect_def processRedirect_gen_def findRedirectRule_def
        findRedirectRule_gen_def findLegacyRedirect_gen_def findLegacyRedirect_def
        orVal_def orURL_def ruleFor_def noLegacyURL_def Let_def)

theorem C1_declarative_rule_witness:
  "redirectConfig (settingsOf mixedOptions someCtx anonymousUser) = JObj declarativeConfig
   \<and> processRedirect noConfig (settingsOf mixedOptions someCtx anonymousUser)
       = Inr (JObj [(''redirect'', loginRule)])
   \<and> orVal (redirectConfig (settingsOf defaultOptions someCtx identifiedUser))
        (config_redirectConfig globalDeclarative) = JObj declarativeConfig
   \<and> noLegacyURL globalDeclarative (settingsOf defaultOptions someCtx identifiedUser)
   \<and> processRedirect_gen globalDeclarative (settingsOf defaultOptions someCtx identifiedUser)
       = Inr (JObj [(''redirect'', appRule)])
   \<and> \<not> noLegacyURL noConfig (settingsOf mixedOptions someCtx anonymousUser)
   \<and> processRedirect_gen noConfig (settingsOf mixedOptions someCtx anonymousUser)
       = findLegacyRedirect noConfig (settingsOf mixedOptions someCtx anonymousUser)"
  using C1_declarative_rule [of "settingsOf mixedOptions someCtx anonymousUser"
          declarativeConfig noConfig]
        C1_declarative_rule [of "settingsOf defaultOptions someCtx identifiedUser"
          declarativeConfig globalDeclarative]
  by (simp add: example_defs ruleFor_def propOf_def hasId_def orVal_def noLegacyURL_def)

text \<open>
  Counterexample to C1 as the specification states it, on the generator-based engine:
  with a declarative mapping
  and a legacy login URL both given, an anonymous session is sent to the legacy URL
  \<open>/signin\<close>, not handed the declarative rule.
\<close>

theorem C1_legacy_wins_counterexample:
  "redirectConfig (settingsOf mixedOptions someCtx anonymousUser) = JObj declarativeConfig
   \<and> ruleFor declarativeConfig anonymousUser = loginRule
   \<and> processRedirect_gen noConfig (settingsOf mixedOptions someCtx anonymousUser)
       = Inr (JObj [(''redirect'',
            JObj [(''destination'', JStr ''/signin''), (''permanent'', JBool False)])])
   \<and> processRedirect_gen noConfig (settingsOf mixedOptions someCtx anonymousUser)
       \<noteq> Inr (JObj [(''redirect'', ruleFor declarativeConfig anonymousUser)])"
  by (simp add: engine_defs example_defs)

text \<open>
  C2, as amended. With no usable legacy URL and no declarative mapping, the
  generator-based engine returns \<open>null\<close> for every session and every pair of action
  flags. The engine of \<open>withAuthUserTokenSSR.js\<close> has no such short cut: it returns
  \<open>null\<close> unless the flag for the session's state selects a redirect, and then throws
  the error of the missing URL.
\<close>

theorem C2_inert_without_urls:
  "noLegacyURL cfg s \<and> noDeclarativeConfig cfg s \<longrightarrow>
     processRedirect_gen cfg s = Inr JNull
     \<and> processRedirect cfg s =
         (if \<not> hasId (AuthUser s) \<and> whenUnauthed s = REDIRECT_TO_LOGIN then Inl authPageURLMissing
          else if hasId (AuthUser s) \<and> whenAuthed s = REDIRECT_TO_APP then Inl appPageURLMissing
          else Inr JNull)"
  by (auto simp: processRedirect_def processRedirect_gen_def findRedirectRule_def
        findRedirectRule_gen_def findLegacyRedirect_gen_def findLegacyRedirect_def
        redirectUnauthenticatedUser_def redirectAuthenticatedUser_def
        orVal_def orURL_def noLegacyURL_def noDeclarativeConfig_def error_defs Let_def)

theorem C2_inert_without_urls_witness:
  "noLegacyURL noConfig (settingsOf loginWithoutURL someCtx anonymousUser)
   \<and> noDeclarativeConfig noConfig (settingsOf loginWithoutURL someCtx anonymousUser)
   \<and> processRedirect_gen noConfig (settingsOf loginWithoutURL someCtx anonymousUser) = Inr JNull
   \<and> processRedirect noConfig (settingsOf loginWithoutURL someCtx anonymousUser)
       = Inl authPageURLMissing
   \<and> processRedirect noConfig (settingsOf defaultOptions someCtx identifiedUser) = Inr JNull"
  using C2_inert_without_urls [of noConfig "settingsOf loginWithoutURL someCtx anonymousUser"]
        C2_inert_without_urls [of noConfig "settingsOf defaultOptions someCtx identifiedUser"]
  by (simp add: example_defs hasId_def noLegacyURL_def noDeclarativeConfig_def)

text \<open>
  Counterexample to C2 as the specification states it, on
  \<open>withAuthUserTokenSSR.js\<close>: no URL and no mapping
  anywhere, the login action selected, an anonymous session; the engine throws.
\<close>

theorem C2_throws_counterexample:
  "noLegacyURL noConfig (settingsOf loginWithoutURL someCtx anonymousUser)
   \<and> noDeclarativeConfig noConfig (settingsOf loginWithoutURL someCtx anonymousUser)
   \<and> findLegacyRedirect noConfig (settingsOf loginWithoutURL someCtx anonymousUser)
       = Inl authPageURLMissing
   \<and> processRedirect noConfig (settingsOf loginWithoutURL someCtx anonymousUser) \<noteq> Inr JNull"
  by (simp add: engine_defs example_defs error_defs)

text \<open>
  C3. In \<open>withAuthUserTokenSSR.js\<close>, for an anonymous session with \<open>whenUnauthed\<close>
  set to \<open>REDIRECT_TO_LOGIN\<close> and no declarative mapping, the engine throws: the
  error of the missing URL when neither the call site nor the global configuration
  gives a usable \<open>authPageURL\<close>, the error of the empty URL when the URL is a function
  that returns the empty string. (An empty string given as the URL is not usable, so
  it falls under the first case.) The result is thus neither \<open>null\<close> nor a directive.
\<close>

theorem C3_login_url_required:
  "\<not> hasId (AuthUser s) \<and> whenUnauthed s = REDIRECT_TO_LOGIN \<and> noDeclarativeConfig cfg s \<longrightarrow>
     (\<not> truthyURL (orURL (authPageURL s) (config_authPageURL cfg)) \<longrightarrow>
        processRedirect cfg s = Inl authPageURLMissing)
     \<and> (\<forall>f. orURL (authPageURL s) (config_authPageURL cfg) = Some (UrlFunction f)
              \<and> f (ctx s) (AuthUser s) = [] \<longrightarrow>
          processRedirect cfg s = Inl authPageURLEmpty)"
  by (auto simp: processRedirect_def findRedirectRule_def findLegacyRedirect_def
        redirectUnauthenticatedUser_def orVal_def noDeclarativeConfig_def error_defs Let_def)

theorem C3_login_url_required_witness:
  "\<not> hasId (AuthUser (settingsOf loginWithoutURL someCtx anonymousUser))
   \<and> whenUnauthed (settingsOf loginWithoutURL someCtx anonymousUser) = REDIRECT_TO_LOGIN
   \<and> noDeclarativeConfig noConfig (settingsOf loginWithoutURL someCtx anonymousUser)
   \<and> \<not> truthyURL (orURL (authPageURL (settingsOf loginWithoutURL someCtx anonymousUser))
                        (config_authPageURL noConfig))
   \<and> processRedirect noConfig (settingsOf loginWithoutURL someCtx anonymousUser)
       = Inl authPageURLMissing
   \<and> orURL (authPageURL (settingsOf emptyLoginURL someCtx anonymousUser))
            (config_authPageURL noConfig) = Some (UrlFunction (\<lambda>c u. []))
   \<and> processRedirect noConfig (settingsOf emptyLoginURL someCtx anonymousUser)
       = Inl authPageURLEmpty"
  using C3_login_url_required [of "settingsOf loginWithoutURL someCtx anonymousUser" noConfig]
        C3_login_url_required [of "settingsOf emptyLoginURL someCtx anonymousUser" noConfig]
  by (simp add: example_defs emptyLoginURL_def hasId_def noDeclarativeConfig_def orURL_def)

text \<open>
  C4. \<open>findRedirectRule\<close> of \<open>withAuthUserTokenSSR.js\<close> tests \<open>config\<close>, the
  call-site mapping or else the global one, and then reads the rule from the call-site
  \<open>redirectConfig\<close>: with the mapping given in the global configuration only, the
  read is from \<open>null\<close> and throws a \<open>TypeError\<close>. The generator-based file reads
  from \<open>config\<close> and returns the global rule at the same input.
\<close>

theorem C4_global_mapping_throws:
  "redirectConfig (settingsOf defaultOptions someCtx identifiedUser) = JNull
   \<and> config_redirectConfig globalDeclarative = JObj declarativeConfig
   \<and> findRedirectRule globalDeclarative (settingsOf defaultOptions someCtx identifiedUser)
       = Inl TypeError
   \<and> processRedirect globalDeclarative (settingsOf defaultOptions someCtx identifiedUser)
       = Inl TypeError
   \<and> findRedirectRule_gen globalDeclarative (settingsOf defaultOptions someCtx identifiedUser)
       = Inr (JObj [(''redirect'', appRule)])"
  by (simp add: engine_defs example_defs)

text \<open>
  C8, as amended. Every directive the legacy strategy constructs is
  \<open>{ redirect: { destination, permanent: false } }\<close> with a non-empty destination:
  what the two redirect functions return, hence every non-null result of the legacy
  strategy, in \<open>withAuthUserTokenSSR.js\<close> and in the resumed generator, and every
  non-null result of either engine when the legacy strategy is the one that decides.
  A declarative rule is returned as it was configured.
\<close>

theorem C8_legacy_temporary_nonempty:
  "(redirectUnauthenticatedUser x c u = Inr v \<or> redirectAuthenticatedUser x c u = Inr v
    \<or> (findLegacyRedirect cfg s = Inr v \<and> v \<noteq> JNull)
    \<or> (snd (findLegacyRedirect_gen cfg s) () = Inr v \<and> v \<noteq> JNull)
    \<or> (noDeclarativeConfig cfg s \<and> processRedirect cfg s = Inr v \<and> v \<noteq> JNull)
    \<or> (\<not> noLegacyURL cfg s \<and> processRedirect_gen cfg s = Inr v \<and> v \<noteq> JNull))
   \<longrightarrow> (\<exists>destination. destination \<noteq> []
          \<and> v = JObj [(''redirect'',
                  JObj [(''destination'', JStr destination), (''permanent'', JBool False)])])"
proof -
  have legacy: "\<exists>d. d \<noteq> [] \<and> v = directive d"
    if "findLegacyRedirect cfg s = Inr v" "v \<noteq> JNull"
    using findLegacyRedirect_result [OF that(1)] that(2) by simp
  have main: "findLegacyRedirect cfg s = Inr v"
    if "noDeclarativeConfig cfg s" "processRedirect cfg s = Inr v"
    using that by (simp add: processRedirect_def findRedirectRule_def orVal_def
      noDeclarativeConfig_def Let_def)
  have gen: "findLegacyRedirect cfg s = Inr v"
    if "\<not> noLegacyURL cfg s" "processRedirect_gen cfg s = Inr v"
    using that by (simp add: processRedirect_gen_def Let_def findLegacyRedirect_gen_yield
      findLegacyRedirect_gen_resume)
  show ?thesis
    using redirectUnauthenticatedUser_result [of x c u v]
      redirectAuthenticatedUser_result [of x c u v] legacy main gen
    by (auto simp: directive_def findLegacyRedirect_gen_resume)
qed

theorem C8_legacy_temporary_nonempty_witness:
  "processRedirect noConfig (settingsOf legacyOptions someCtx anonymousUser)
     = Inr (JObj [(''redirect'',
              JObj [(''destination'', JStr ''/signin''), (''permanent'', JBool False)])])
   \<and> noDeclarativeConfig noConfig (settingsOf legacyOptions someCtx anonymousUser)
   \<and> (\<exists>destination. destination \<noteq> []
        \<and> JObj [(''redirect'',
              JObj [(''destination'', JStr ''/signin''), (''permanent'', JBool False)])]
          = JObj [(''redirect'',
              JObj [(''destination'', JStr destination), (''permanent'', JBool False)])])"
proof -
  have r: "processRedirect noConfig (settingsOf legacyOptions someCtx anonymousUser)
     = Inr (JObj [(''redirect'',
              JObj [(''destination'', JStr ''/signin''), (''permanent'', JBool False)])])"
    by (simp add: engine_defs example_defs)
  have n: "noDeclarativeConfig noConfig (settingsOf legacyOptions someCtx anonymousUser)"
    by (simp add: noDeclarativeConfig_def example_defs)
  show ?thesis
    using r n C8_legacy_temporary_nonempty [of "None" someCtx anonymousUser
        "JObj [(''redirect'',
              JObj [(''destination'', JStr ''/signin''), (''permanent'', JBool False)])]"
        noConfig "settingsOf legacyOptions someCtx anonymousUser"]
    by simp
qed

text \<open>
  Counterexample to C8 as the specification states it: with a declarative mapping
  whose rule is a permanent redirect, both engines return that rule, \<open>permanent: true\<close>
  included.
\<close>

theorem C8_declarative_permanent_counterexample:
  "processRedirect noConfig (settingsOf permanentOptions someCtx anonymousUser)
     = Inr (JObj [(''redirect'',
              JObj [(''destination'', JStr ''/moved''), (''permanent'', JBool True)])])
   \<and> processRedirect_gen noConfig (settingsOf permanentOptions someCtx anonymousUser)
     = Inr (JObj [(''redirect'',
              JObj [(''destination'', JStr ''/moved''), (''permanent'', JBool True)])])"
  by (simp add: engine_defs example_defs permanentOptions_def)

section \<open>Properties of the wrapper\<close>

lemma propOf_setProp:
  "propOf (setProp kvs k v) k' = (if k' = k then v else propOf kvs k')"
  by (simp add: propOf_def setProp_def update_conv)

lemma wrapper_object:
  assumes "determineAuthUser d useToken (req c) (res c) (config_cookies (getConfig d)) = Inr u"
    and "processRedirect (getConfig d) (settingsOf opts c u) = Inr JNull"
    and "f (c\<lparr>ctx_AuthUser := Some u\<rparr>) w = (Inr (JObj kvs), w')"
  shows "withAuthUserTokenSSR d opts useToken (Some f) c w =
     (if truthy (propOf kvs ''props'') then
        (case propOf kvs ''props'' of
           JObj ps \<Rightarrow> (Inr (JObj (setProp kvs ''props''
               (JObj (setProp ps ''AuthUserSerialized'' (JStr (serialize u)))))), w')
         | _ \<Rightarrow> (Inl TypeError, w'))
      else if truthy (propOf kvs ''notFound'') \<or> truthy (propOf kvs ''redirect'')
        then (Inr (JObj kvs), w')
      else (Inr (sessionProps (serialize u)), w'))"
  using assms by (simp add: withAuthUserTokenSSR_def orVal_def Let_def split: jsval.splits)

text \<open>
  C6. When the engine returns a value other than \<open>null\<close>, the wrapper returns that
  value and the state of the world is the one it started from, whatever page function
  was given: the function was not called. The same holds when the engine throws. When
  the engine returns \<open>null\<close> and a function was given, the state returned is the one
  the function left behind at the context with the \<open>AuthUser\<close> attached.
\<close>

theorem C6_redirect_before_hook:
  assumes "determineAuthUser d useToken (req c) (res c) (config_cookies (getConfig d)) = Inr u"
  shows "(processRedirect (getConfig d) (settingsOf opts c u) = Inr r \<and> r \<noteq> JNull \<longrightarrow>
            withAuthUserTokenSSR d opts useToken g c w = (Inr r, w))
       \<and> (processRedirect (getConfig d) (settingsOf opts c u) = Inl e \<longrightarrow>
            withAuthUserTokenSSR d opts useToken g c w = (Inl e, w))
       \<and> (processRedirect (getConfig d) (settingsOf opts c u) = Inr JNull \<and> g = Some f \<longrightarrow>
            snd (withAuthUserTokenSSR d opts useToken g c w)
              = snd (f (c\<lparr>ctx_AuthUser := Some u\<rparr>) w))"
proof (intro conjI impI)
  assume "processRedirect (getConfig d) (settingsOf opts c u) = Inr r \<and> r \<noteq> JNull"
  then have "processRedirect (getConfig d) (settingsOf opts c u) = Inr r" and "truthy r"
    using processRedirect_truthy by blast+
  with assms show "withAuthUserTokenSSR d opts useToken g c w = (Inr r, w)"
    by (simp add: withAuthUserTokenSSR_def)
next
  assume "processRedirect (getConfig d) (settingsOf opts c u) = Inl e"
  with assms show "withAuthUserTokenSSR d opts useToken g c w = (Inl e, w)"
    by (simp add: withAuthUserTokenSSR_def)
next
  assume "processRedirect (getConfig d) (settingsOf opts c u) = Inr JNull \<and> g = Some f"
  with assms show "snd (withAuthUserTokenSSR d opts useToken g c w)
      = snd (f (c\<lparr>ctx_AuthUser := Some u\<rparr>) w)"
    by (simp add: withAuthUserTokenSSR_def Let_def
        split: prod.splits sum.splits jsval.splits)
qed

lemma example_session:
  "determineAuthUser (exampleDeps None) True (req someCtx) (res someCtx)
     (config_cookies (getConfig (exampleDeps None))) = Inr anonymousUser"
  by (simp add: determineAuthUser_def exampleDeps_def propOf_def)

lemma example_render:
  "processRedirect (getConfig (exampleDeps None)) (settingsOf defaultOptions someCtx anonymousUser)
     = Inr JNull"
  by (simp add: engine_defs example_defs exampleDeps_def)

lemma example_redirect:
  "processRedirect (getConfig (exampleDeps None)) (settingsOf legacyOptions someCtx anonymousUser)
     = Inr (directive ''/signin'')"
  by (simp add: engine_defs example_defs exampleDeps_def)

lemma example_throw:
  "processRedirect (getConfig (exampleDeps None)) (settingsOf loginWithoutURL someCtx anonymousUser)
     = Inl authPageURLMissing"
  by (simp add: engine_defs example_defs exampleDeps_def error_defs)

theorem C6_redirect_before_hook_witness:
  "withAuthUserTokenSSR (exampleDeps None) legacyOptions True
       (Some (returning (JObj [(''props'', JObj [])]))) someCtx 0
     = (Inr (JObj [(''redirect'',
               JObj [(''destination'', JStr ''/signin''), (''permanent'', JBool False)])]), 0)
   \<and> withAuthUserTokenSSR (exampleDeps None) loginWithoutURL True
       (Some (returning (JObj [(''props'', JObj [])]))) someCtx 0
     = (Inl authPageURLMissing, 0)
   \<and> snd (withAuthUserTokenSSR (exampleDeps None) defaultOptions True
       (Some (returning (JObj [(''props'', JObj [])]))) someCtx 0) = Suc 0"
  using C6_redirect_before_hook [OF example_session, where opts = legacyOptions
          and r = "directive ''/signin''" and w = 0
          and g = "Some (returning (JObj [(''props'', JObj [])]))"]
        C6_redirect_before_hook [OF example_session, where opts = loginWithoutURL
          and e = authPageURLMissing and w = 0
          and g = "Some (returning (JObj [(''props'', JObj [])]))"]
        C6_redirect_before_hook [OF example_session, where opts = defaultOptions and w = 0
          and g = "Some (returning (JObj [(''props'', JObj [])]))"
          and f = "returning (JObj [(''props'', JObj [])])"]
        example_render example_redirect example_throw
  by (simp add: directive_def returning_def)

text \<open>
  C7. When the engine returns \<open>null\<close> and the page function returns an object whose
  \<open>props\<close> is an object, the wrapper returns the function's object with
  \<open>AuthUserSerialized\<close> set, in its \<open>props\<close>, to the serialized session. With no
  page function, and with one that returns \<open>undefined\<close>, the result is exactly
  \<open>{ props: { AuthUserSerialized: s } }\<close>.
\<close>

theorem C7_session_injected:
  assumes "determineAuthUser d useToken (req c) (res c) (config_cookies (getConfig d)) = Inr u"
    and "processRedirect (getConfig d) (settingsOf opts c u) = Inr JNull"
  shows "(f (c\<lparr>ctx_AuthUser := Some u\<rparr>) w = (Inr (JObj kvs), w')
            \<and> propOf kvs ''props'' = JObj ps \<longrightarrow>
          withAuthUserTokenSSR d opts useToken (Some f) c w
            = (Inr (JObj (setProp kvs ''props''
                  (JObj (setProp ps ''AuthUserSerialized'' (JStr (serialize u)))))), w')
          \<and> propOf (setProp ps ''AuthUserSerialized'' (JStr (serialize u))) ''AuthUserSerialized''
              = JStr (serialize u))
       \<and> withAuthUserTokenSSR d opts useToken None c w
            = (Inr (JObj [(''props'', JObj [(''AuthUserSerialized'', JStr (serialize u))])]), w)
       \<and> (f (c\<lparr>ctx_AuthUser := Some u\<rparr>) w = (Inr JUndefined, w') \<longrightarrow>
          withAuthUserTokenSSR d opts useToken (Some f) c w
            = (Inr (JObj [(''props'', JObj [(''AuthUserSerialized'', JStr (serialize u))])]), w'))"
proof (intro conjI impI)
  assume h: "f (c\<lparr>ctx_AuthUser := Some u\<rparr>) w = (Inr (JObj kvs), w') \<and> propOf kvs ''props'' = JObj ps"
  then show "withAuthUserTokenSSR d opts useToken (Some f) c w
            = (Inr (JObj (setProp kvs ''props''
                  (JObj (setProp ps ''AuthUserSerialized'' (JStr (serialize u)))))), w')"
    using wrapper_object [OF assms, of f w kvs w'] by simp
  show "propOf (setProp ps ''AuthUserSerialized'' (JStr (serialize u))) ''AuthUserSerialized''
              = JStr (serialize u)"
    by (simp add: propOf_setProp)
next
  show "withAuthUserTokenSSR d opts useToken None c w
            = (Inr (JObj [(''props'', JObj [(''AuthUserSerialized'', JStr (serialize u))])]), w)"
    using assms by (simp add: withAuthUserTokenSSR_def sessionProps_def)
next
  assume "f (c\<lparr>ctx_AuthUser := Some u\<rparr>) w = (Inr JUndefined, w')"
  with assms show "withAuthUserTokenSSR d opts useToken (Some f) c w
            = (Inr (JObj [(''props'', JObj [(''AuthUserSerialized'', JStr (serialize u))])]), w')"
    by (simp add: withAuthUserTokenSSR_def sessionProps_def orVal_def propOf_def)
qed

theorem C7_session_injected_witness:
  "withAuthUserTokenSSR (exampleDeps None) defaultOptions True
       (Some (returning (JObj [(''props'', JObj [(''a'', JNum 1)])]))) someCtx 0
     = (Inr (JObj [(''props'', JObj [(''a'', JNum 1), (''AuthUserSerialized'', JStr ''SESSVAL'')])]),
        Suc 0)
   \<and> withAuthUserTokenSSR (exampleDeps None) defaultOptions True None someCtx (0::nat)
     = (Inr (JObj [(''props'', JObj [(''AuthUserSerialized'', JStr ''SESSVAL'')])]), 0)
   \<and> withAuthUserTokenSSR (exampleDeps None) defaultOptions True
       (Some (returning JUndefined)) someCtx 0
     = (Inr (JObj [(''props'', JObj [(''AuthUserSerialized'', JStr ''SESSVAL'')])]), Suc 0)"
  using C7_session_injected [OF example_session example_render,
          where f = "returning (JObj [(''props'', JObj [(''a'', JNum 1)])])" and w = 0
            and kvs = "[(''props'', JObj [(''a'', JNum 1)])]" and w' = "Suc 0"
            and ps = "[(''a'', JNum 1)]"]
        C7_session_injected [OF example_session example_render,
          where f = "returning JUndefined" and w = 0 and w' = "Suc 0"]
  by (simp add: returning_def propOf_def setProp_def anonymousUser_def)

text \<open>
  C5, as amended. When the engine returns \<open>null\<close> and the page function returns an
  object with a truthy \<open>notFound\<close> or \<open>redirect\<close> and no truthy \<open>props\<close>, the
  wrapper returns that object as it is. The test for \<open>props\<close> comes first: when the
  object has a \<open>props\<close> object too, the session is injected into it, and the other
  keys, \<open>notFound\<close> and \<open>redirect\<close> among them, stay as they were.
\<close>

theorem C5_routing_result_kept:
  assumes "determineAuthUser d useToken (req c) (res c) (config_cookies (getConfig d)) = Inr u"
    and "processRedirect (getConfig d) (settingsOf opts c u) = Inr JNull"
    and "f (c\<lparr>ctx_AuthUser := Some u\<rparr>) w = (Inr (JObj kvs), w')"
  shows "(\<not> truthy (propOf kvs ''props'')
            \<and> (truthy (propOf kvs ''notFound'') \<or> truthy (propOf kvs ''redirect'')) \<longrightarrow>
          withAuthUserTokenSSR d opts useToken (Some f) c w = (Inr (JObj kvs), w'))
       \<and> (propOf kvs ''props'' = JObj ps \<longrightarrow>
          (\<exists>kvs'. withAuthUserTokenSSR d opts useToken (Some f) c w = (Inr (JObj kvs'), w')
             \<and> propOf kvs' ''props''
                 = JObj (setProp ps ''AuthUserSerialized'' (JStr (serialize u)))
             \<and> propOf kvs' ''notFound'' = propOf kvs ''notFound''
             \<and> propOf kvs' ''redirect'' = propOf kvs ''redirect''))"
  using wrapper_object [where f = f and w = w, OF assms] by (auto simp: propOf_setProp)

theorem C5_routing_result_kept_witness:
  "withAuthUserTokenSSR (exampleDeps None) defaultOptions True
       (Some (returning (JObj [(''redirect'', JObj [(''destination'', JStr ''/x'')])]))) someCtx 0
     = (Inr (JObj [(''redirect'', JObj [(''destination'', JStr ''/x'')])]), Suc 0)
   \<and> (\<exists>kvs'. withAuthUserTokenSSR (exampleDeps None) defaultOptions True
          (Some (returning (JObj [(''props'', JObj [(''a'', JNum 1)]), (''notFound'', JBool True)])))
          someCtx 0 = (Inr (JObj kvs'), Suc 0)
        \<and> propOf kvs' ''props'' = JObj [(''a'', JNum 1), (''AuthUserSerialized'', JStr ''SESSVAL'')]
        \<and> propOf kvs' ''notFound'' = JBool True)"
  using C5_routing_result_kept [OF example_session example_render,
          where f = "returning (JObj [(''redirect'', JObj [(''destination'', JStr ''/x'')])])"
            and w = 0 and w' = "Suc 0"
            and kvs = "[(''redirect'', JObj [(''destination'', JStr ''/x'')])]"]
        C5_routing_result_kept [OF example_session example_render,
          where f = "returning (JObj [(''props'', JObj [(''a'', JNum 1)]), (''notFound'', JBool True)])"
            and w = 0 and w' = "Suc 0"
            and kvs = "[(''props'', JObj [(''a'', JNum 1)]), (''notFound'', JBool True)]"
            and ps = "[(''a'', JNum 1)]"]
  by (fastforce simp: returning_def propOf_def setProp_def anonymousUser_def)

text \<open>
  Counterexample to C5 as the specification states it, where the function's result
  carries \<open>redirect\<close> and \<open>props\<close> together: the wrapper does not return it
  unmodified, it returns it with the serialized session in its \<open>props\<close>.
\<close>

theorem C5_props_first_counterexample:
  "withAuthUserTokenSSR (exampleDeps None) defaultOptions True
       (Some (returning (JObj [(''redirect'', JObj [(''destination'', JStr ''/x'')]),
                               (''props'', JObj [(''a'', JNum 1)])]))) someCtx 0
     = (Inr (JObj [(''redirect'', JObj [(''destination'', JStr ''/x'')]),
                   (''props'', JObj [(''a'', JNum 1), (''AuthUserSerialized'', JStr ''SESSVAL'')])]),
        Suc 0)
   \<and> fst (withAuthUserTokenSSR (exampleDeps None) defaultOptions True
       (Some (returning (JObj [(''redirect'', JObj [(''destination'', JStr ''/x'')]),
                               (''props'', JObj [(''a'', JNum 1)])]))) someCtx 0)
     \<noteq> Inr (JObj [(''redirect'', JObj [(''destination'', JStr ''/x'')]),
                  (''props'', JObj [(''a'', JNum 1)])])"
  using wrapper_object [OF example_session example_render,
          where f = "returning (JObj [(''redirect'', JObj [(''destination'', JStr ''/x'')]),
                               (''props'', JObj [(''a'', JNum 1)])])"
            and w = 0 and w' = "Suc 0"
            and kvs = "[(''redirect'', JObj [(''destination'', JStr ''/x'')]),
                               (''props'', JObj [(''a'', JNum 1)])]"]
  by (simp add: returning_def propOf_def setProp_def anonymousUser_def)

text \<open>
  C10. When the engine returns \<open>null\<close> and the page function returns a non-empty
  object with none of the keys \<open>props\<close>, \<open>notFound\<close> and \<open>redirect\<close>, the wrapper
  returns \<open>{ props: { AuthUserSerialized: s } }\<close> and nothing of the function's
  object. When the function's \<open>props\<close> has the key \<open>AuthUserSerialized\<close> already,
  the result's \<open>props\<close> has the same keys and the serialized session under that key.
\<close>

theorem C10_discard_and_overwrite:
  assumes "determineAuthUser d useToken (req c) (res c) (config_cookies (getConfig d)) = Inr u"
    and "processRedirect (getConfig d) (settingsOf opts c u) = Inr JNull"
    and "f (c\<lparr>ctx_AuthUser := Some u\<rparr>) w = (Inr (JObj kvs), w')"
  shows "(kvs \<noteq> [] \<and> map_of kvs ''props'' = None \<and> map_of kvs ''notFound'' = None
            \<and> map_of kvs ''redirect'' = None \<longrightarrow>
          withAuthUserTokenSSR d opts useToken (Some f) c w
            = (Inr (JObj [(''props'', JObj [(''AuthUserSerialized'', JStr (serialize u))])]), w'))
       \<and> (map_of kvs ''props'' = Some (JObj ps) \<and> map_of ps ''AuthUserSerialized'' = Some old \<longrightarrow>
          (\<exists>kvs' ps'. withAuthUserTokenSSR d opts useToken (Some f) c w = (Inr (JObj kvs'), w')
             \<and> map_of kvs' ''props'' = Some (JObj ps')
             \<and> map fst ps' = map fst ps
             \<and> map_of ps' ''AuthUserSerialized'' = Some (JStr (serialize u))))"
proof (intro conjI impI)
  assume "kvs \<noteq> [] \<and> map_of kvs ''props'' = None \<and> map_of kvs ''notFound'' = None
            \<and> map_of kvs ''redirect'' = None"
  then show "withAuthUserTokenSSR d opts useToken (Some f) c w
            = (Inr (JObj [(''props'', JObj [(''AuthUserSerialized'', JStr (serialize u))])]), w')"
    using wrapper_object [where f = f and w = w, OF assms] by (simp add: propOf_def sessionProps_def)
next
  assume h: "map_of kvs ''props'' = Some (JObj ps) \<and> map_of ps ''AuthUserSerialized'' = Some old"
  then have "''AuthUserSerialized'' \<in> fst ` set ps"
    by (metis domI dom_map_of_conv_image_fst)
  then have keys: "map fst (setProp ps ''AuthUserSerialized'' (JStr (serialize u))) = map fst ps"
    by (simp add: setProp_def update_keys)
  from h have "withAuthUserTokenSSR d opts useToken (Some f) c w
      = (Inr (JObj (setProp kvs ''props''
           (JObj (setProp ps ''AuthUserSerialized'' (JStr (serialize u)))))), w')"
    using wrapper_object [where f = f and w = w, OF assms] by (simp add: propOf_def)
  with keys show "\<exists>kvs' ps'. withAuthUserTokenSSR d opts useToken (Some f) c w = (Inr (JObj kvs'), w')
             \<and> map_of kvs' ''props'' = Some (JObj ps')
             \<and> map fst ps' = map fst ps
             \<and> map_of ps' ''AuthUserSerialized'' = Some (JStr (serialize u))"
    by (simp add: setProp_def update_conv)
qed

theorem C10_discard_and_overwrite_witness:
  "withAuthUserTokenSSR (exampleDeps None) defaultOptions True
       (Some (returning (JObj [(''foo'', JNum 1)]))) someCtx 0
     = (Inr (JObj [(''props'', JObj [(''AuthUserSerialized'', JStr ''SESSVAL'')])]), Suc 0)
   \<and> (\<exists>kvs' ps'. withAuthUserTokenSSR (exampleDeps None) defaultOptions True
          (Some (returning (JObj [(''props'',
             JObj [(''AuthUserSerialized'', JStr ''mine''), (''a'', JNum 1)])]))) someCtx 0
          = (Inr (JObj kvs'), Suc 0)
        \<and> map_of kvs' ''props'' = Some (JObj ps')
        \<and> map fst ps' = [''AuthUserSerialized'', ''a'']
        \<and> map_of ps' ''AuthUserSerialized'' = Some (JStr ''SESSVAL''))"
  using C10_discard_and_overwrite [OF example_session example_render,
          where f = "returning (JObj [(''foo'', JNum 1)])" and w = 0 and w' = "Suc 0"
            and kvs = "[(''foo'', JNum 1)]"]
        C10_discard_and_overwrite [OF example_session example_render,
          where f = "returning (JObj [(''props'',
             JObj [(''AuthUserSerialized'', JStr ''mine''), (''a'', JNum 1)])])"
            and w = 0 and w' = "Suc 0"
            and kvs = "[(''props'', JObj [(''AuthUserSerialized'', JStr ''mine''), (''a'', JNum 1)])]"
            and ps = "[(''AuthUserSerialized'', JStr ''mine''), (''a'', JNum 1)]"
            and old = "JStr ''mine''"]
  by (fastforce simp: returning_def anonymousUser_def)

section \<open>Properties of the session resolver\<close>

text \<open>
  C9, as amended. In token mode the resolver returns what \<open>createAuthUser()\<close>
  returns, the anonymous session, when the tokens cookie is absent or empty. When the
  cookie has a value, it parses it and reads \<open>idToken\<close> and \<open>refreshToken\<close>: with a
  truthy \<open>idToken\<close> the result is the verifier's, called with the two tokens; with
  none, the verifier is not called and the result is the anonymous session again.
\<close>

theorem C9_token_mode:
  "(getCookie d (getAuthUserTokensCookieName d) (rq, rs) copts = None
      \<or> getCookie d (getAuthUserTokensCookieName d) (rq, rs) copts = Some [] \<longrightarrow>
        determineAuthUser d True rq rs copts = createAuthUser d NoArgs)
   \<and> (getCookie d (getAuthUserTokensCookieName d) (rq, rs) copts = Some str \<and> str \<noteq> []
        \<and> JSON_parse d str = Inr parsed
        \<and> getProp parsed ''idToken'' = Inr idToken
        \<and> getProp parsed ''refreshToken'' = Inr refreshToken \<longrightarrow>
        determineAuthUser d True rq rs copts =
          (if truthy idToken then verifyIdToken d idToken refreshToken
           else createAuthUser d NoArgs))"
  by (auto simp: determineAuthUser_def propOf_def)

theorem C9_token_mode_witness:
  \<open>determineAuthUser (exampleDeps None) True (req someCtx) (res someCtx)
       \<lparr> keys = [], secure = False, signed = False \<rparr> = Inr anonymousUser
   \<and> determineAuthUser (exampleDeps (Some ''{"idToken":"tok","refreshToken":"ref"}'')) True
       (req someCtx) (res someCtx) \<lparr> keys = [], secure = False, signed = False \<rparr>
     = Inr identifiedUser
   \<and> determineAuthUser (exampleDeps (Some ''{}'')) True
       (req someCtx) (res someCtx) \<lparr> keys = [], secure = False, signed = False \<rparr>
     = Inr anonymousUser\<close>
  using C9_token_mode [of "exampleDeps None" "req someCtx" "res someCtx"
          "\<lparr> keys = [], secure = False, signed = False \<rparr>"]
        C9_token_mode [of \<open>exampleDeps (Some ''{"idToken":"tok","refreshToken":"ref"}'')\<close>
          "req someCtx" "res someCtx" "\<lparr> keys = [], secure = False, signed = False \<rparr>"
          \<open>''{"idToken":"tok","refreshToken":"ref"}''\<close>
          "JObj [(''idToken'', JStr ''tok''), (''refreshToken'', JStr ''ref'')]"
          "JStr ''tok''" "JStr ''ref''"]
        C9_token_mode [of \<open>exampleDeps (Some ''{}'')\<close>
          "req someCtx" "res someCtx" "\<lparr> keys = [], secure = False, signed = False \<rparr>"
          \<open>''{}''\<close> "JObj []" JUndefined JUndefined]
  by (simp add: exampleDeps_def parseTokens_def propOf_def)

text \<open>
  Counterexample to C9 as the specification states it, at a tokens cookie that is present
  and holds no
  \<open>idToken\<close>: the resolver returns the anonymous session, which is not what the
  verifier returns.
\<close>

theorem C9_no_token_counterexample:
  \<open>getCookie (exampleDeps (Some ''{}'')) (getAuthUserTokensCookieName (exampleDeps (Some ''{}'')))
       (req someCtx, res someCtx) \<lparr> keys = [], secure = False, signed = False \<rparr> = Some ''{}''
   \<and> JSON_parse (exampleDeps (Some ''{}'')) ''{}'' = Inr (JObj [])
   \<and> determineAuthUser (exampleDeps (Some ''{}'')) True (req someCtx) (res someCtx)
       \<lparr> keys = [], secure = False, signed = False \<rparr>
     = createAuthUser (exampleDeps (Some ''{}'')) NoArgs
   \<and> determineAuthUser (exampleDeps (Some ''{}'')) True (req someCtx) (res someCtx)
       \<lparr> keys = [], secure = False, signed = False \<rparr>
     \<noteq> verifyIdToken (exampleDeps (Some ''{}'')) JUndefined JUndefined\<close>
  by (simp add: determineAuthUser_def exampleDeps_def parseTokens_def propOf_def
      anonymousUser_def identifiedUser_def)

end
